theory Spec2Isabelle
  imports Main "HOL-Library.Word"
begin

section \<open>The swarm of package p2p2: data model\<close>

text \<open>
  The swarm holds the known remote nodes, the open connections and the outgoing messages
  that have no response yet. Its handlers are run by one event loop
  (\<open>beginProcessingEvents\<close>), which receives from the network's channels and from the
  request channels filled by \<open>ConnectTo\<close>, \<open>DisconnectFrom\<close> and \<open>SendMessage\<close>.

  A Go map is a partial function; a Go interface value that may be \<open>nil\<close> is an
  \<open>option\<close> with \<open>None\<close> for \<open>nil\<close>; a Go \<open>error\<close> result is an \<open>error option\<close>
  with \<open>None\<close> for \<open>nil\<close>. A handler takes the swarm and returns the swarm it leaves
  together with the calls it made on its collaborators, in order.
\<close>

type_synonym byte = "8 word"

type_synonym error = string

text \<open>A channel is known by its identity only.\<close>

type_synonym chan = nat

text \<open>
  \<open>SendMessageReq\<close>, \<open>NodeReq\<close> and \<open>NodeResp\<close> each have a field \<open>remoteNodeId\<close>;
  the fields of the first and the last carry a suffix here, and so does the field
  \<open>err\<close> of \<open>NodeResp\<close>, whose name the handlers use for a local variable.
\<close>

record SendMessageReq =
  remoteNodeId_msg :: string
  reqId :: string
  msg :: "byte list"

record NodeReq =
  remoteNodeId :: string
  remoteNodeIp :: string
  callback :: chan

record NodeResp =
  remoteNodeId_resp :: string
  err_resp :: "error option"

text \<open>
  Modelled from the spec: the types \<open>NetworkSession\<close> and \<open>RemoteNode\<close> are declared
  outside the file of the swarm. A session has a session id, key material and an
  authenticated flag; a remote node has a peer id, a network address and at most one
  session.
\<close>

record NetworkSession =
  sessionId :: string
  sessionKey :: "byte list"
  authenticated :: bool

record RemoteNode =
  nodeId :: string
  nodeAddress :: string
  session :: "NetworkSession option"

text \<open>A value of the interface type \<open>RemoteNode\<close>: \<open>None\<close> is \<open>nil\<close>.\<close>

type_synonym RemoteNodeRef = "RemoteNode option"

text \<open>
  Modelled from the spec: \<open>RemoteNode.HasSession\<close> is not in the file of the swarm. The
  connect handler resolves at once when the node "already has an authenticated session".
\<close>

definition HasSession :: "RemoteNode \<Rightarrow> bool" where
  "HasSession n = (case session n of None \<Rightarrow> False | Some ss \<Rightarrow> authenticated ss)"

text \<open>
  Modelled from the spec: \<open>RemoteNode.GetSession\<close> is not in the file of the swarm. It
  "invokes fn with the current Session only if authenticated"; the result is what the
  callback did.
\<close>

definition GetSession :: "RemoteNode \<Rightarrow> (NetworkSession \<Rightarrow> 'c list) \<Rightarrow> 'c list" where
  "GetSession n fn =
     (case session n of
        None \<Rightarrow> []
      | Some ss \<Rightarrow> if authenticated ss then fn ss else [])"

text \<open>
  Modelled from the spec: the interface \<open>Connection\<close> is declared outside the file of the
  swarm. A connection has a connection id, returned by \<open>Id()\<close>, and a remote address.
\<close>

record Connection =
  Id_conn :: string
  remoteAddress :: string

text \<open>An incoming message: the connection it arrived on and its bytes.\<close>

record ConnectionMessage =
  Connection :: Connection
  Message :: "byte list"

text \<open>
  The handlers for connection errors and send errors ignore their argument; both error
  types are a connection with an error here.
\<close>

type_synonym ConnectionError = "Connection \<times> error"

type_synonym MessageSendError = "Connection \<times> error"

text \<open>
  Modelled from the spec: \<open>pb.CommonMessageData\<close> is generated code outside the file of
  the swarm. The envelope has one field the swarm reads, the payload, which may be empty.
\<close>

record CommonMessageData =
  Payload :: "byte list"

text \<open>
  The calls a handler makes on its collaborators: the three levels of the log package
  (with the format string), \<open>Close()\<close> on a connection, \<open>CreateSession\<close> of the local
  node's handshake protocol, and a send on a callback channel. No handler of the swarm
  contains a send on a channel; the constructor is there so that this can be stated.
\<close>

datatype call =
    LogError string
  | LogInfo string
  | LogWarning string
  | ConnectionClose Connection
  | CreateSession RemoteNodeRef
  | ChanSend chan NodeResp

text \<open>
  The swarm. The network, the local node and the demuxer are set in construction and
  never change; their types are parameters. The four channels of the struct
  (\<open>connectionRequests\<close>, \<open>disconnectRequests\<close>, \<open>sendMsgRequests\<close>, \<open>kill\<close>) carry
  the events the loop consumes and are the loop's input below.
\<close>

record ('n, 'l, 'd) swarmImpl =
  network :: 'n
  localNode :: 'l
  demuxer :: 'd
  peers :: "string \<rightharpoonup> RemoteNodeRef"
  connections :: "string \<rightharpoonup> Connection"
  peersByConnection :: "string \<rightharpoonup> RemoteNodeRef"
  pendingOutgoingMessages :: "string \<rightharpoonup> SendMessageReq"

text \<open>Reading a Go map at a key it does not hold gives the zero value, \<open>nil\<close>.\<close>

definition map_index :: "(string \<rightharpoonup> RemoteNodeRef) \<Rightarrow> string \<Rightarrow> RemoteNodeRef" where
  "map_index m k = (case m k of None \<Rightarrow> None | Some v \<Rightarrow> v)"

section \<open>Construction\<close>

text \<open>
  \<open>NewNetwork\<close> and \<open>NewDemuxer\<close> are outside the file of the swarm and are parameters.
  \<open>NewSwarm\<close> returns the pair of Go results and the calls made. On success it also
  starts \<open>beginProcessingEvents\<close> on the new swarm.
\<close>

definition NewSwarm ::
  "(string \<Rightarrow> 'n \<times> error option) \<Rightarrow> 'd \<Rightarrow> string \<Rightarrow> 'l \<Rightarrow>
   (('n, 'l, 'd) swarmImpl option \<times> error option) \<times> call list" where
  "NewSwarm NewNetwork NewDemuxer tcpAddress l =
     (case NewNetwork tcpAddress of (n, err) \<Rightarrow>
        if err \<noteq> None
        then ((None, err), [LogError ''can't create swarm without a network: %v''])
        else ((Some \<lparr>network = n, localNode = l, demuxer = NewDemuxer,
                      peers = Map.empty, connections = Map.empty,
                      peersByConnection = Map.empty,
                      pendingOutgoingMessages = Map.empty\<rparr>, err), []))"

section \<open>Handlers\<close>

text \<open>
  The second half of \<open>onConnectionRequest\<close>: with a node that has a session, log and
  return; otherwise start the handshake protocol with \<open>remoteNode\<close>.
\<close>

definition onConnectionRequest_session ::
  "RemoteNodeRef \<Rightarrow> ('n, 'l, 'd) swarmImpl \<Rightarrow> ('n, 'l, 'd) swarmImpl \<times> call list" where
  "onConnectionRequest_session remoteNode s =
     (case remoteNode of
        Some n \<Rightarrow>
          if HasSession n
          then (s, LogInfo ''We have a session with this node''
                   # GetSession n (\<lambda>ss. [LogInfo ''Session info: %s'']))
          else (s, [CreateSession remoteNode])
      | None \<Rightarrow> (s, [CreateSession remoteNode]))"

text \<open>
  \<open>onConnectionRequest\<close>. \<open>NewRemoteNode\<close> is outside the file of the swarm and is a
  parameter. Inside the first \<open>if\<close> the source declares a new variable \<open>remoteNode\<close>
  with \<open>:=\<close> (here \<open>newNode\<close>), which is stored in the peer table; the variable read
  after the block is the outer one, still \<open>nil\<close>.
\<close>

definition onConnectionRequest ::
  "(string \<Rightarrow> string \<Rightarrow> RemoteNodeRef \<times> error option) \<Rightarrow> NodeReq \<Rightarrow>
   ('n, 'l, 'd) swarmImpl \<Rightarrow> ('n, 'l, 'd) swarmImpl \<times> call list" where
  "onConnectionRequest NewRemoteNode req s =
     (let remoteNode = map_index (peers s) (remoteNodeId req) in
      if remoteNode = None
      then (case NewRemoteNode (remoteNodeId req) (remoteNodeIp req) of (newNode, err) \<Rightarrow>
              if err \<noteq> None then (s, [])
              else onConnectionRequest_session remoteNode
                     (s\<lparr>peers := (peers s)(remoteNodeId req \<mapsto> newNode)\<rparr>))
      else onConnectionRequest_session remoteNode s)"

definition onDisconnectionRequest ::
  "NodeReq \<Rightarrow> ('n, 'l, 'd) swarmImpl \<Rightarrow> ('n, 'l, 'd) swarmImpl \<times> call list" where
  "onDisconnectionRequest req s = (s, [])"

definition onSendMessageRequest ::
  "SendMessageReq \<Rightarrow> ('n, 'l, 'd) swarmImpl \<Rightarrow> ('n, 'l, 'd) swarmImpl \<times> call list" where
  "onSendMessageRequest r s =
     (s\<lparr>pendingOutgoingMessages := (pendingOutgoingMessages s)(reqId r \<mapsto> r)\<rparr>, [])"

definition onConnectionClosed ::
  "Connection \<Rightarrow> ('n, 'l, 'd) swarmImpl \<Rightarrow> ('n, 'l, 'd) swarmImpl \<times> call list" where
  "onConnectionClosed c s =
     (s\<lparr>connections := (connections s)(Id_conn c := None),
        peersByConnection := (peersByConnection s)(Id_conn c := None)\<rparr>, [])"

definition onRemoteClientConnected ::
  "Connection \<Rightarrow> ('n, 'l, 'd) swarmImpl \<Rightarrow> ('n, 'l, 'd) swarmImpl \<times> call list" where
  "onRemoteClientConnected c s = (s, [])"

text \<open>
  \<open>onRemoteClientMessage\<close>. \<open>proto.Unmarshal\<close> into a \<open>pb.CommonMessageData\<close> is a
  parameter: \<open>Inl\<close> is its error. Both branches on the length of the payload hold
  comments only.
\<close>

definition onRemoteClientMessage ::
  "(byte list \<Rightarrow> error + CommonMessageData) \<Rightarrow> ConnectionMessage \<Rightarrow>
   ('n, 'l, 'd) swarmImpl \<Rightarrow> ('n, 'l, 'd) swarmImpl \<times> call list" where
  "onRemoteClientMessage Unmarshal m s =
     (case Unmarshal (Message m) of
        Inl e \<Rightarrow>
          (s, [LogWarning ''Bad request - closing connection...'',
               ConnectionClose (Connection m)])
      | Inr c \<Rightarrow>
          if length (Payload c) = 0 then (s, []) else (s, []))"

definition onConnectionError ::
  "ConnectionError \<Rightarrow> ('n, 'l, 'd) swarmImpl \<Rightarrow> ('n, 'l, 'd) swarmImpl \<times> call list" where
  "onConnectionError e s = (s, [])"

definition onMessageSendError ::
  "MessageSendError \<Rightarrow> ('n, 'l, 'd) swarmImpl \<Rightarrow> ('n, 'l, 'd) swarmImpl \<times> call list" where
  "onMessageSendError e s = (s, [])"

section \<open>The event loop\<close>

text \<open>
  One value received by the \<open>select\<close> of the loop, one constructor for each case, in the
  order of the source.
\<close>

datatype event =
    Kill bool
  | NewConnection Connection
  | IncomingMessage ConnectionMessage
  | ConnectionErrorEvent ConnectionError
  | MessageSendErrorEvent MessageSendError
  | ClosingConnection Connection
  | SendMsgRequest SendMessageReq
  | ConnectionRequest NodeReq
  | DisconnectRequest NodeReq

text \<open>
  The loop either leaves through \<open>break Loop\<close> or stays in \<open>select\<close>, waiting, when
  nothing more arrives. Both outcomes carry the swarm and the calls made so far.
\<close>

datatype ('n, 'l, 'd) outcome =
    Terminated "('n, 'l, 'd) swarmImpl" "call list"
  | Waiting "('n, 'l, 'd) swarmImpl" "call list"

text \<open>
  \<open>beginProcessingEvents\<close>, run on the sequence of values its \<open>select\<close> receives. Each
  iteration takes the next value and runs its case.
\<close>

fun beginProcessingEvents ::
  "(byte list \<Rightarrow> error + CommonMessageData) \<Rightarrow>
   (string \<Rightarrow> string \<Rightarrow> RemoteNodeRef \<times> error option) \<Rightarrow>
   event list \<Rightarrow> ('n, 'l, 'd) swarmImpl \<Rightarrow> call list \<Rightarrow> ('n, 'l, 'd) outcome" where
  "beginProcessingEvents U N [] s cs = Waiting s cs"
| "beginProcessingEvents U N (Kill b # es) s cs = Terminated s cs"
| "beginProcessingEvents U N (NewConnection c # es) s cs =
     (case onRemoteClientConnected c s of (s', cs') \<Rightarrow>
        beginProcessingEvents U N es s' (cs @ cs'))"
| "beginProcessingEvents U N (IncomingMessage m # es) s cs =
     (case onRemoteClientMessage U m s of (s', cs') \<Rightarrow>
        beginProcessingEvents U N es s' (cs @ cs'))"
| "beginProcessingEvents U N (ConnectionErrorEvent e # es) s cs =
     (case onConnectionError e s of (s', cs') \<Rightarrow>
        beginProcessingEvents U N es s' (cs @ cs'))"
| "beginProcessingEvents U N (MessageSendErrorEvent e # es) s cs =
     (case onMessageSendError e s of (s', cs') \<Rightarrow>
        beginProcessingEvents U N es s' (cs @ cs'))"
| "beginProcessingEvents U N (ClosingConnection c # es) s cs =
     (case onConnectionClosed c s of (s', cs') \<Rightarrow>
        beginProcessingEvents U N es s' (cs @ cs'))"
| "beginProcessingEvents U N (SendMsgRequest r # es) s cs =
     (case onSendMessageRequest r s of (s', cs') \<Rightarrow>
        beginProcessingEvents U N es s' (cs @ cs'))"
| "beginProcessingEvents U N (ConnectionRequest n # es) s cs =
     (case onConnectionRequest N n s of (s', cs') \<Rightarrow>
        beginProcessingEvents U N es s' (cs @ cs'))"
| "beginProcessingEvents U N (DisconnectRequest n # es) s cs =
     (case onDisconnectionRequest n s of (s', cs') \<Rightarrow>
        beginProcessingEvents U N es s' (cs @ cs'))"

section \<open>Sample collaborators and swarms\<close>

text \<open>
  The parameters of the handlers are instantiated in the closed examples below by the
  following functions, and the handlers are run on the following swarms.

  A decoder of envelopes: the empty byte sequence is the envelope with the empty payload;
  the tag \<open>0x0A\<close>, a length and that many bytes are an envelope with these bytes as
  payload; anything else is an error.
\<close>

fun unmarshal_envelope :: "byte list \<Rightarrow> error + CommonMessageData" where
  "unmarshal_envelope [] = Inr \<lparr>Payload = []\<rparr>"
| "unmarshal_envelope [t] = Inl ''unexpected EOF''"
| "unmarshal_envelope (t # n # bs) =
     (if t = 0x0A \<and> unat n = length bs then Inr \<lparr>Payload = bs\<rparr>
      else Inl ''proto: cannot parse'')"

text \<open>A constructor of remote nodes that refuses the empty address.\<close>

definition NewRemoteNode_sample :: "string \<Rightarrow> string \<Rightarrow> RemoteNodeRef \<times> error option" where
  "NewRemoteNode_sample i a =
     (if a = [] then (None, Some ''invalid address'')
      else (Some \<lparr>nodeId = i, nodeAddress = a, session = None\<rparr>, None))"

text \<open>A constructor of networks that refuses the empty address; a network is its address.\<close>

definition NewNetwork_sample :: "string \<Rightarrow> string option \<times> error option" where
  "NewNetwork_sample a =
     (if a = [] then (None, Some ''missing address'') else (Some a, None))"

definition swarm_empty :: "(unit, unit, unit) swarmImpl" where
  "swarm_empty =
     \<lparr>network = (), localNode = (), demuxer = (),
      peers = Map.empty, connections = Map.empty, peersByConnection = Map.empty,
      pendingOutgoingMessages = Map.empty\<rparr>"

definition conn_one :: Connection where
  "conn_one = \<lparr>Id_conn = ''conn-1'', remoteAddress = ''10.0.0.7:7513''\<rparr>"

definition node_authenticated :: RemoteNode where
  "node_authenticated =
     \<lparr>nodeId = ''peerX'', nodeAddress = ''10.0.0.7:7513'',
      session = Some \<lparr>sessionId = ''s-1'', sessionKey = [7, 7], authenticated = True\<rparr>\<rparr>"

definition req_first :: SendMessageReq where
  "req_first = \<lparr>remoteNodeId_msg = ''peerX'', reqId = ''req-1'', msg = [1]\<rparr>"

definition req_second :: SendMessageReq where
  "req_second = \<lparr>remoteNodeId_msg = ''peerY'', reqId = ''req-1'', msg = [2]\<rparr>"

text \<open>
  A swarm with one peer that has an authenticated session, one open connection bound to
  that peer, and one pending outgoing message.
\<close>

definition swarm_bound :: "(unit, unit, unit) swarmImpl" where
  "swarm_bound =
     \<lparr>network = (), localNode = (), demuxer = (),
      peers = [''peerX'' \<mapsto> Some node_authenticated],
      connections = [''conn-1'' \<mapsto> conn_one],
      peersByConnection = [''conn-1'' \<mapsto> Some node_authenticated],
      pendingOutgoingMessages = [''req-1'' \<mapsto> req_first]\<rparr>"

text \<open>A message that is not an envelope, and one with the payload \<open>[0x2A]\<close>.\<close>

definition msg_malformed :: ConnectionMessage where
  "msg_malformed = \<lparr>Connection = conn_one, Message = [0x0A]\<rparr>"

definition msg_data :: ConnectionMessage where
  "msg_data = \<lparr>Connection = conn_one, Message = [0x0A, 1, 0x2A]\<rparr>"

text \<open>Connect requests for a peer, with a malformed (empty) address and with an address.\<close>

definition req_connect_malformed :: NodeReq where
  "req_connect_malformed = \<lparr>remoteNodeId = ''peerZ'', remoteNodeIp = [], callback = 3\<rparr>"

definition req_connect :: NodeReq where
  "req_connect = \<lparr>remoteNodeId = ''peerZ'', remoteNodeIp = ''10.0.0.9:7513'', callback = 4\<rparr>"

text \<open>Whether a sequence of calls holds a send on the channel \<open>ch\<close>.\<close>

fun is_send_on :: "chan \<Rightarrow> call \<Rightarrow> bool" where
  "is_send_on ch (ChanSend ch' r) = (ch' = ch)"
| "is_send_on ch (LogError x) = False"
| "is_send_on ch (LogInfo x) = False"
| "is_send_on ch (LogWarning x) = False"
| "is_send_on ch (ConnectionClose c) = False"
| "is_send_on ch (CreateSession n) = False"

definition delivers_on :: "chan \<Rightarrow> call list \<Rightarrow> bool" where
  "delivers_on ch cs = list_ex (is_send_on ch) cs"

section \<open>Properties\<close>

text \<open>
  C6: after the connection-closed handler has run for a connection, neither the
  connection table nor the peer-by-connection index has an entry for the id of that
  connection, whatever the two tables held before.
\<close>

theorem onConnectionClosed_purges:
  "Id_conn c \<notin> dom (connections (fst (onConnectionClosed c s))) \<and>
   Id_conn c \<notin> dom (peersByConnection (fst (onConnectionClosed c s)))"
  by (simp add: onConnectionClosed_def)

text \<open>
  C1, as stated, fails: a send request whose reqId is pending already is not rejected.
  The pending table held \<open>req_first\<close> under \<open>req-1\<close>; after the handler has run on
  \<open>req_second\<close>, which has the same reqId, the table holds \<open>req_second\<close> there, and the
  handler has reported nothing.
\<close>

theorem onSendMessageRequest_duplicate_counterexample:
  "pendingOutgoingMessages swarm_bound (reqId req_second) = Some req_first \<and>
   pendingOutgoingMessages (fst (onSendMessageRequest req_second swarm_bound)) (reqId req_second)
     = Some req_second \<and>
   req_second \<noteq> req_first \<and>
   snd (onSendMessageRequest req_second swarm_bound) = []"
  by (simp add: onSendMessageRequest_def swarm_bound_def req_first_def req_second_def)

text \<open>
  C1, amended: for every send request the handler stores the request in the pending table
  under its reqId, in place of any entry the table held there; the entries under other
  reqIds and the three other tables are unchanged, and the handler reports nothing.
\<close>

theorem onSendMessageRequest_stores:
  "pendingOutgoingMessages (fst (onSendMessageRequest r s)) (reqId r) = Some r \<and>
   (\<forall>k. k \<noteq> reqId r \<longrightarrow>
      pendingOutgoingMessages (fst (onSendMessageRequest r s)) k = pendingOutgoingMessages s k) \<and>
   peers (fst (onSendMessageRequest r s)) = peers s \<and>
   connections (fst (onSendMessageRequest r s)) = connections s \<and>
   peersByConnection (fst (onSendMessageRequest r s)) = peersByConnection s \<and>
   snd (onSendMessageRequest r s) = []"
  by (simp add: onSendMessageRequest_def)

theorem onSendMessageRequest_stores_witness:
  "''req-0'' \<noteq> reqId req_second \<and>
   pendingOutgoingMessages (fst (onSendMessageRequest req_second swarm_bound)) ''req-0''
     = pendingOutgoingMessages swarm_bound ''req-0'' \<and>
   pendingOutgoingMessages (fst (onSendMessageRequest req_second swarm_bound)) ''req-1''
     = Some req_second"
proof -
  have k: "''req-0'' \<noteq> reqId req_second"
    by (simp add: req_second_def)
  have r: "reqId req_second = ''req-1''"
    by (simp add: req_second_def)
  from onSendMessageRequest_stores [of req_second swarm_bound] k r
  show ?thesis by simp
qed

text \<open>
  C2: when the bytes of an incoming message fail to decode as the envelope, the handler
  closes the connection the message arrived on and does nothing else with the message:
  the swarm is unchanged, and the warning in the log and the close are its only calls.
\<close>

theorem onRemoteClientMessage_malformed:
  "Unmarshal (Message m) = Inl e \<Longrightarrow>
   onRemoteClientMessage Unmarshal m s =
     (s, [LogWarning ''Bad request - closing connection...'', ConnectionClose (Connection m)])"
  by (simp add: onRemoteClientMessage_def)

theorem onRemoteClientMessage_malformed_witness:
  "unmarshal_envelope (Message msg_malformed) = Inl ''unexpected EOF'' \<and>
   onRemoteClientMessage unmarshal_envelope msg_malformed swarm_bound =
     (swarm_bound, [LogWarning ''Bad request - closing connection...'', ConnectionClose conn_one])"
proof -
  have h: "unmarshal_envelope (Message msg_malformed) = Inl ''unexpected EOF''"
    by (simp add: msg_malformed_def)
  from onRemoteClientMessage_malformed
         [of unmarshal_envelope msg_malformed "''unexpected EOF''" swarm_bound] h
  show ?thesis by (simp add: msg_malformed_def)
qed

text \<open>
  C3, the code at a failing input: a message that decodes to an envelope with the payload
  \<open>[0x2A]\<close> arrives on a connection that the peer-by-connection index does not hold. The
  handler returns with no call at all: the connection is not closed.
\<close>

theorem onRemoteClientMessage_data_unbound:
  "unmarshal_envelope (Message msg_data) = Inr \<lparr>Payload = [0x2A]\<rparr> \<and>
   peersByConnection swarm_empty (Id_conn (Connection msg_data)) = None \<and>
   onRemoteClientMessage unmarshal_envelope msg_data swarm_empty = (swarm_empty, [])"
  by (simp add: onRemoteClientMessage_def msg_data_def swarm_empty_def)

text \<open>
  C4, the code at a failing input: a connect request names a peer id that the peer table
  does not hold, and its address is malformed, so that the remote node cannot be
  constructed. The handler returns with the swarm as it was and with no call at all:
  nothing is sent on the callback channel of the request, neither an error nor any
  other result.
\<close>

theorem onConnectionRequest_malformed_address:
  "map_index (peers swarm_empty) (remoteNodeId req_connect_malformed) = None \<and>
   snd (NewRemoteNode_sample (remoteNodeId req_connect_malformed)
          (remoteNodeIp req_connect_malformed)) \<noteq> None \<and>
   onConnectionRequest NewRemoteNode_sample req_connect_malformed swarm_empty
     = (swarm_empty, []) \<and>
   \<not> delivers_on (callback req_connect_malformed)
       (snd (onConnectionRequest NewRemoteNode_sample req_connect_malformed swarm_empty))"
  by (simp add: onConnectionRequest_def NewRemoteNode_sample_def req_connect_malformed_def
      swarm_empty_def map_index_def delivers_on_def)

text \<open>
  C5, the code at a failing input: a connect request names a peer id that the peer table
  does not hold, and the remote node is constructed. The handler stores the new node in
  the peer table under the peer id, and calls \<open>CreateSession\<close> with \<open>nil\<close>, not with
  the node it stored.
\<close>

theorem onConnectionRequest_new_peer:
  "peers swarm_empty (remoteNodeId req_connect) = None \<and>
   NewRemoteNode_sample (remoteNodeId req_connect) (remoteNodeIp req_connect) =
     (Some \<lparr>nodeId = ''peerZ'', nodeAddress = ''10.0.0.9:7513'', session = None\<rparr>, None) \<and>
   peers (fst (onConnectionRequest NewRemoteNode_sample req_connect swarm_empty)) ''peerZ'' =
     Some (Some \<lparr>nodeId = ''peerZ'', nodeAddress = ''10.0.0.9:7513'', session = None\<rparr>) \<and>
   snd (onConnectionRequest NewRemoteNode_sample req_connect swarm_empty) = [CreateSession None]"
  by (simp add: onConnectionRequest_def onConnectionRequest_session_def NewRemoteNode_sample_def
      req_connect_def swarm_empty_def map_index_def)

text \<open>
  C7, as stated, fails: the connection \<open>conn-1\<close> is bound to the node of \<open>peerX\<close>, which
  has a session. After the connection-closed handler has run for that connection, the
  peer table holds the same node for \<open>peerX\<close>, with its session: the session reference is
  not cleared.
\<close>

theorem onConnectionClosed_session_counterexample:
  "peersByConnection swarm_bound (Id_conn conn_one) = Some (Some node_authenticated) \<and>
   peers (fst (onConnectionClosed conn_one swarm_bound)) ''peerX'' = Some (Some node_authenticated) \<and>
   session node_authenticated \<noteq> None \<and>
   HasSession node_authenticated"
  by (simp add: onConnectionClosed_def swarm_bound_def conn_one_def node_authenticated_def
      HasSession_def)

text \<open>
  C7, amended: the connection-closed handler leaves the peer table as it was. Every
  remote node remains in the peer table, and its session reference is what it was before
  the handler ran; the handler clears no session and makes no call.
\<close>

theorem onConnectionClosed_keeps_peers:
  "peers (fst (onConnectionClosed c s)) = peers s \<and>
   pendingOutgoingMessages (fst (onConnectionClosed c s)) = pendingOutgoingMessages s \<and>
   snd (onConnectionClosed c s) = []"
  by (simp add: onConnectionClosed_def)

text \<open>
  C8, as stated, fails: the loop consumes the kill signal in a swarm with one open
  connection and one pending outgoing message. It terminates with the swarm as it was:
  the connection was not closed and the pending message is still in the table.
\<close>

theorem beginProcessingEvents_kill_counterexample:
  "connections swarm_bound ''conn-1'' = Some conn_one \<and>
   pendingOutgoingMessages swarm_bound ''req-1'' = Some req_first \<and>
   beginProcessingEvents unmarshal_envelope NewRemoteNode_sample [Kill True] swarm_bound []
     = Terminated swarm_bound []"
  by (simp add: swarm_bound_def)

text \<open>
  C8, amended: when the kill signal is consumed the event loop terminates at once,
  whatever events would follow: none of them is processed, and the loop leaves the swarm
  and the calls made so far as they were at that moment. The pending-outgoing-message
  table is therefore left as it was: no entry of it is resolved or removed.
\<close>

theorem beginProcessingEvents_kill:
  "beginProcessingEvents U N (Kill b # es) s cs = Terminated s cs"
  by simp

text \<open>
  C10: \<open>NewSwarm\<close> returns a nil swarm with a non-nil error exactly when the creation of
  the network for the address fails; when it succeeds, \<open>NewSwarm\<close> returns, with a nil
  error, a swarm whose four tables are empty, with the local node supplied and the
  demuxer just created.
\<close>

theorem NewSwarm_result:
  "((fst (fst (NewSwarm NewNetwork NewDemuxer tcpAddress l)) = None \<and>
     snd (fst (NewSwarm NewNetwork NewDemuxer tcpAddress l)) \<noteq> None)
    \<longleftrightarrow> snd (NewNetwork tcpAddress) \<noteq> None) \<and>
   (snd (NewNetwork tcpAddress) = None \<longrightarrow>
     (\<exists>s. fst (NewSwarm NewNetwork NewDemuxer tcpAddress l) = (Some s, None) \<and>
        peers s = Map.empty \<and> connections s = Map.empty \<and>
        peersByConnection s = Map.empty \<and> pendingOutgoingMessages s = Map.empty \<and>
        localNode s = l \<and> demuxer s = NewDemuxer \<and> network s = fst (NewNetwork tcpAddress)))"
  by (cases "NewNetwork tcpAddress") (auto simp: NewSwarm_def)

theorem NewSwarm_result_witness:
  "snd (NewNetwork_sample ''0.0.0.0:7513'') = None \<and>
   snd (NewNetwork_sample []) \<noteq> None \<and>
   fst (fst (NewSwarm NewNetwork_sample () [] ())) = None \<and>
   snd (fst (NewSwarm NewNetwork_sample () [] ())) \<noteq> None \<and>
   (\<exists>s. fst (NewSwarm NewNetwork_sample () ''0.0.0.0:7513'' ()) = (Some s, None) \<and>
      peers s = Map.empty \<and> pendingOutgoingMessages s = Map.empty)"
proof -
  have ok: "snd (NewNetwork_sample ''0.0.0.0:7513'') = None"
    by (simp add: NewNetwork_sample_def)
  have bad: "snd (NewNetwork_sample []) \<noteq> None"
    by (simp add: NewNetwork_sample_def)
  from NewSwarm_result [of NewNetwork_sample "()" "[]" "()"] bad
  have 1: "fst (fst (NewSwarm NewNetwork_sample () [] ())) = None \<and>
           snd (fst (NewSwarm NewNetwork_sample () [] ())) \<noteq> None"
    by blast
  from NewSwarm_result [of NewNetwork_sample "()" "''0.0.0.0:7513''" "()"] ok
  have 2: "\<exists>s. fst (NewSwarm NewNetwork_sample () ''0.0.0.0:7513'' ()) = (Some s, None) \<and>
      peers s = Map.empty \<and> pendingOutgoingMessages s = Map.empty"
    by blast
  from ok bad 1 2 show ?thesis by blast
qed

end
